theory Spec2Isabelle
  imports Main "HOL-Library.AList" "HOL-Library.Word"
begin

section \<open>Values and errors of the Python program\<close>

text \<open>
  The state file and the device responses are JSON. \<open>json.load\<close> hands back an arbitrary
  JSON value, and \<open>solar_robot.py\<close> never checks its shape, so the model keeps the whole
  value. An object is an association list in insertion order, as a Python dict is.
  Numbers are restricted to integers: no claim depends on a float literal in the file.
\<close>

datatype json =
    JNull
  | JBool bool
  | JInt int
  | JStr string
  | JArr "json list"
  | JObj "(string \<times> json) list"

text \<open>The exceptions that the modelled lines can raise.\<close>

datatype error = KeyError | TypeError | ValueError

text \<open>Python truthiness, which is what \<open>if x\<close> and \<open>not x\<close> test.\<close>

fun truthy :: "json \<Rightarrow> bool" where
  "truthy JNull = False"
| "truthy (JBool b) = b"
| "truthy (JInt i) = (i \<noteq> 0)"
| "truthy (JStr s) = (s \<noteq> [])"
| "truthy (JArr xs) = (xs \<noteq> [])"
| "truthy (JObj kvs) = (kvs \<noteq> [])"

text \<open>
  \<open>state[key]\<close> with a string key: a dict without the key raises KeyError, every other
  JSON value raises TypeError.
\<close>

fun getitem :: "json \<Rightarrow> string \<Rightarrow> error + json" where
  "getitem (JObj kvs) k = (case map_of kvs k of None \<Rightarrow> Inl KeyError | Some v \<Rightarrow> Inr v)"
| "getitem j k = Inl TypeError"

text \<open>
  \<open>state[key] = v\<close> with a string key: a dict is updated in place (an existing key keeps
  its position, a new key goes last), every other JSON value raises TypeError.
\<close>

fun setitem :: "json \<Rightarrow> string \<Rightarrow> json \<Rightarrow> error + json" where
  "setitem (JObj kvs) k v = Inr (JObj (AList.update k v kvs))"
| "setitem j k v = Inl TypeError"

fun is_object :: "json \<Rightarrow> bool" where
  "is_object (JObj kvs) = True"
| "is_object j = False"

section \<open>The world the script acts on\<close>

text \<open>
  The two device types are the string literals \<open>'relay'\<close> and \<open>'lamp'\<close>; every call site
  passes one of the two.
\<close>

datatype device = Relay | Lamp

text \<open>What \<open>requests.get\<close> does: it raises, or it returns a response with a status code.\<close>

datatype http_result = Raised | Status nat

text \<open>
  A Shelly device: its physical switch, and how it answers a status query and a
  \<open>turn=on/off\<close> request at this moment. The device model: a status query answered with
  200 carries the body \<open>{"ison": <switch>}\<close>; a turn request answered with 200 has set the
  switch; any other outcome leaves the switch alone.
\<close>

record shelly =
  ison :: bool
  query_result :: http_result
  turn_result :: http_result

text \<open>
  The state file: absent (\<open>os.path.exists\<close> is false), present but \<open>open\<close> or
  \<open>json.load\<close> raises, or present and parsed to a JSON value.
\<close>

datatype file_content = Missing | Unparsable | Parsed json

text \<open>
  \<open>writable\<close> tells whether \<open>open(state_file, 'w')\<close> succeeds. \<open>calls\<close> is the log of
  control requests sent to the devices (device, turn_on), oldest first.
\<close>

record world =
  relay_dev :: shelly
  lamp_dev :: shelly
  state_file :: file_content
  writable :: bool
  calls :: "(device \<times> bool) list"

fun shelly_of :: "device \<Rightarrow> world \<Rightarrow> shelly" where
  "shelly_of Relay w = relay_dev w"
| "shelly_of Lamp w = lamp_dev w"

fun switch :: "device \<Rightarrow> bool \<Rightarrow> world \<Rightarrow> world" where
  "switch Relay b w = w\<lparr>relay_dev := (relay_dev w)\<lparr>ison := b\<rparr>\<rparr>"
| "switch Lamp b w = w\<lparr>lamp_dev := (lamp_dev w)\<lparr>ison := b\<rparr>\<rparr>"

definition status_body :: "shelly \<Rightarrow> json" where
  "status_body d = JObj [(''ison'', JBool (ison d))]"

record config =
  high_threshold :: int
  low_threshold :: int

section \<open>Power reader\<close>

text \<open>
  \<open>read_input_registers(5029, count=2)\<close> raises, or returns an error response, or returns
  a response holding a list of 16-bit registers.
\<close>

datatype modbus_result = ModbusRaised | ModbusError | Registers "16 word list"

text \<open>\<open>registers[1]\<close> on a shorter list raises IndexError, caught by the \<open>except\<close>.\<close>

definition get_solar_output :: "modbus_result \<Rightarrow> int option" where
  "get_solar_output result =
     (case result of
        ModbusRaised \<Rightarrow> None
      | ModbusError \<Rightarrow> None
      | Registers registers \<Rightarrow>
          if 1 < length registers then Some (uint (registers ! 1)) else None)"

section \<open>Device gateway\<close>

text \<open>\<open>response.json().get('ison', False)\<close>; a body that is no dict raises, and the \<open>except\<close> returns False.\<close>

definition get_shelly_device_state :: "device \<Rightarrow> world \<Rightarrow> bool" where
  "get_shelly_device_state dev w =
     (case query_result (shelly_of dev w) of
        Raised \<Rightarrow> False
      | Status code \<Rightarrow>
          if code = 200 then
            (case status_body (shelly_of dev w) of
               JObj kvs \<Rightarrow> truthy (case map_of kvs ''ison'' of None \<Rightarrow> JBool False | Some v \<Rightarrow> v)
             | _ \<Rightarrow> False)
          else False)"

section \<open>Ownership store\<close>

fun state_key :: "device \<Rightarrow> string" where
  "state_key Relay = ''relay_turned_on_by_script''"
| "state_key Lamp = ''lamp_turned_on_by_script''"

definition default_state :: json where
  "default_state =
     JObj [(''relay_turned_on_by_script'', JBool False), (''lamp_turned_on_by_script'', JBool False)]"

definition load_state :: "world \<Rightarrow> json" where
  "load_state w =
     (case state_file w of
        Missing \<Rightarrow> default_state
      | Unparsable \<Rightarrow> default_state
      | Parsed state \<Rightarrow> state)"

text \<open>
  The item assignment comes before \<open>open(..., 'w')\<close>, so a TypeError leaves the file as it
  was; so does a failing \<open>open\<close>. Both are caught and logged.
\<close>

definition save_state :: "device \<Rightarrow> bool \<Rightarrow> world \<Rightarrow> world" where
  "save_state dev turn_on w =
     (case setitem (load_state w) (state_key dev) (JBool turn_on) of
        Inl e \<Rightarrow> w
      | Inr state \<Rightarrow> if writable w then w\<lparr>state_file := Parsed state\<rparr> else w)"

text \<open>Every path sends the request first; only a 200 answer reaches \<open>save_state\<close>.\<close>

definition control_shelly_device :: "device \<Rightarrow> bool \<Rightarrow> bool \<Rightarrow> world \<Rightarrow> world" where
  "control_shelly_device dev turn_on track_state w =
     (let w1 = w\<lparr>calls := calls w @ [(dev, turn_on)]\<rparr> in
      case turn_result (shelly_of dev w) of
        Raised \<Rightarrow> w1
      | Status code \<Rightarrow>
          if code = 200 then
            (let w2 = switch dev turn_on w1 in
             if track_state then save_state dev turn_on w2 else w2)
          else w1)"

section \<open>Solar calendar\<close>

text \<open>
  Instants are integers in datetime's resolution; a date is a day number; a duration is
  the exact difference of two instants (the source converts it to float seconds). The
  calendar (astral's \<open>sun\<close>) and the mapping from an instant to the local date
  (\<open>datetime.now().date()\<close>) are parameters. The source reads the clock two or three
  times within one function, with nothing but arithmetic in between; the model gives each
  call one reading \<open>now\<close>.
\<close>

record sun_times =
  sunrise :: int
  sunset :: int

datatype sun_event = Sunrise | Sunset

text \<open>\<open>s[event_type]\<close>, for the two events the program's calendar record carries.\<close>

fun sun_item :: "sun_times \<Rightarrow> sun_event \<Rightarrow> int" where
  "sun_item s Sunrise = sunrise s"
| "sun_item s Sunset = sunset s"

definition has_passed_event :: "sun_event \<Rightarrow> (int \<Rightarrow> sun_times) \<Rightarrow> (int \<Rightarrow> int) \<Rightarrow> int \<Rightarrow> bool" where
  "has_passed_event event_type sun date_of now =
     (let s = sun (date_of now);
          event_time = sun_item s event_type;
          current_time = now
      in current_time > event_time)"

text \<open>
  What the loop does before the next tick: \<open>time.sleep(5)\<close>, the long sleep with its
  duration, or nothing at all (the \<open>else\<close> branch of \<open>wait_until_sunrise\<close>).
  \<open>time.sleep\<close> raises ValueError on a negative duration.
\<close>

datatype sleep_action = PollSleep | SunriseSleep int | NoSleep

definition wait_until_sunrise :: "(int \<Rightarrow> sun_times) \<Rightarrow> (int \<Rightarrow> int) \<Rightarrow> int \<Rightarrow> error + sleep_action" where
  "wait_until_sunrise sun date_of now =
     (let today_sun = sun (date_of now);
          sunset_time = sunset today_sun;
          current_time = now
      in if current_time > sunset_time then
           (let tomorrow_sun = sun (date_of now + 1);
                next_sunrise_time = sunrise tomorrow_sun;
                sleep_duration = next_sunrise_time - current_time
            in if sleep_duration < 0 then Inl ValueError else Inr (SunriseSleep sleep_duration))
         else Inr NoSleep)"

section \<open>Control loop\<close>

text \<open>The two locals of \<open>main\<close>, assigned once from the loaded state and never again.\<close>

record ownership =
  relay_turned_on_by_script :: json
  lamp_turned_on_by_script :: json

fun flag_of :: "device \<Rightarrow> ownership \<Rightarrow> json" where
  "flag_of Relay fl = relay_turned_on_by_script fl"
| "flag_of Lamp fl = lamp_turned_on_by_script fl"

text \<open>
  Lines 163 to 173: load, read both keys, query both devices, reconcile. (Lines 151 to 161
  compute today's sunrise and sunset for the log only.)
\<close>

definition startup :: "world \<Rightarrow> error + (ownership \<times> world)" where
  "startup w =
     (let state = load_state w in
      case getitem state ''relay_turned_on_by_script'' of
        Inl e \<Rightarrow> Inl e
      | Inr rv \<Rightarrow>
         (case getitem state ''lamp_turned_on_by_script'' of
            Inl e \<Rightarrow> Inl e
          | Inr lv \<Rightarrow>
              (let relay_initial_state = get_shelly_device_state Relay w;
                   lamp_initial_state = get_shelly_device_state Lamp w;
                   w1 = (if relay_initial_state \<and> \<not> truthy rv then save_state Relay False w else w);
                   w2 = (if lamp_initial_state \<and> \<not> truthy lv then save_state Lamp False w1 else w1)
               in Inr (\<lparr>relay_turned_on_by_script = rv, lamp_turned_on_by_script = lv\<rparr>, w2))))"

text \<open>
  Lines 177 to 203: the threshold policy for one reading. The block of lines 187 to 193 is
  repeated for the lamp at lines 195 to 201; \<open>turn_off_if_owned\<close> is that block.
\<close>

definition turn_off_if_owned :: "ownership \<Rightarrow> device \<Rightarrow> world \<Rightarrow> world" where
  "turn_off_if_owned fl dev w =
     (if get_shelly_device_state dev w then
        (if truthy (flag_of dev fl) then control_shelly_device dev False True w else w)
      else w)"

definition policy_step :: "config \<Rightarrow> ownership \<Rightarrow> int option \<Rightarrow> world \<Rightarrow> world" where
  "policy_step cfg fl power_output w =
     (case power_output of
        None \<Rightarrow> w
      | Some p \<Rightarrow>
          if p > high_threshold cfg then
            control_shelly_device Lamp True True (control_shelly_device Relay True True w)
          else if p < low_threshold cfg then
            turn_off_if_owned fl Lamp (turn_off_if_owned fl Relay w)
          else w)"

text \<open>Lines 205 to 209: the sleep decision; the two calls read the clock one after the other.\<close>

definition sleep_step :: "(int \<Rightarrow> sun_times) \<Rightarrow> (int \<Rightarrow> int) \<Rightarrow> int \<Rightarrow> int \<Rightarrow> error + sleep_action" where
  "sleep_step sun date_of t1 t2 =
     (if has_passed_event Sunset sun date_of t1 then wait_until_sunrise sun date_of t2
      else Inr PollSleep)"

text \<open>What one iteration of \<open>while True\<close> receives from outside: the Modbus answer and two clock readings.\<close>

record tick_input =
  modbus :: modbus_result
  t_event :: int
  t_wait :: int

definition main_tick ::
  "config \<Rightarrow> (int \<Rightarrow> sun_times) \<Rightarrow> (int \<Rightarrow> int) \<Rightarrow> ownership \<Rightarrow> tick_input \<Rightarrow> world
     \<Rightarrow> world \<times> (error + sleep_action)" where
  "main_tick cfg sun date_of fl inp w =
     (let power_output = get_solar_output (modbus inp);
          w' = policy_step cfg fl power_output w
      in (w', sleep_step sun date_of (t_event inp) (t_wait inp)))"

text \<open>
  The loop, run over the inputs of finitely many ticks; the result is the world after each
  tick. An exception out of the sleep decision ends the loop. Nothing but the script
  touches the world between two ticks.
\<close>

fun main_loop ::
  "config \<Rightarrow> (int \<Rightarrow> sun_times) \<Rightarrow> (int \<Rightarrow> int) \<Rightarrow> ownership \<Rightarrow> tick_input list \<Rightarrow> world
     \<Rightarrow> world list" where
  "main_loop cfg sun date_of fl [] w = []"
| "main_loop cfg sun date_of fl (inp # inps) w =
     (case main_tick cfg sun date_of fl inp w of
        (w', Inl e) \<Rightarrow> [w']
      | (w', Inr a) \<Rightarrow> w' # main_loop cfg sun date_of fl inps w')"

definition main ::
  "config \<Rightarrow> (int \<Rightarrow> sun_times) \<Rightarrow> (int \<Rightarrow> int) \<Rightarrow> tick_input list \<Rightarrow> world
     \<Rightarrow> error + world list" where
  "main cfg sun date_of inps w =
     (case startup w of
        Inl e \<Rightarrow> Inl e
      | Inr (fl, w1) \<Rightarrow> Inr (main_loop cfg sun date_of fl inps w1))"

section \<open>Concrete environments\<close>

text \<open>A device that answers every request with 200, its switch in the given position.\<close>

definition responsive :: "bool \<Rightarrow> shelly" where
  "responsive b = \<lparr>ison = b, query_result = Status 200, turn_result = Status 200\<rparr>"

text \<open>Two responsive devices, a writable store with the given file, no request sent yet.\<close>

definition example_world :: "bool \<Rightarrow> bool \<Rightarrow> file_content \<Rightarrow> world" where
  "example_world r l f =
     \<lparr>relay_dev = responsive r, lamp_dev = responsive l, state_file = f, writable = True, calls = []\<rparr>"

definition example_config :: config where
  "example_config = \<lparr>high_threshold = 1000, low_threshold = 200\<rparr>"

definition no_ownership :: ownership where
  "no_ownership = \<lparr>relay_turned_on_by_script = JBool False, lamp_turned_on_by_script = JBool False\<rparr>"

text \<open>A clock counting seconds, days of 86400 of them, sunrise at 06:00 and sunset at 18:00.\<close>

definition example_date_of :: "int \<Rightarrow> int" where
  "example_date_of t = t div 86400"

definition example_sun :: "int \<Rightarrow> sun_times" where
  "example_sun d = \<lparr>sunrise = d * 86400 + 21600, sunset = d * 86400 + 64800\<rparr>"

text \<open>A tick at noon of day 0 whose second register holds the given power.\<close>

definition noon_tick :: "16 word \<Rightarrow> tick_input" where
  "noon_tick p = \<lparr>modbus = Registers [0, p], t_event = 43200, t_wait = 43200\<rparr>"

definition failed_read_tick :: tick_input where
  "failed_read_tick = \<lparr>modbus = ModbusError, t_event = 43200, t_wait = 43200\<rparr>"

definition evening_tick :: tick_input where
  "evening_tick = \<lparr>modbus = ModbusError, t_event = 70000, t_wait = 70001\<rparr>"

text \<open>The two clock readings of one tick on either side of midnight.\<close>

definition midnight_tick :: tick_input where
  "midnight_tick = \<lparr>modbus = ModbusError, t_event = 86399, t_wait = 86400\<rparr>"

text \<open>
  Instants in seconds of UTC. The calendar gives Greenwich in June for a UTC date: sunrise
  at 03:43, sunset at 20:21. The machine's local time is seven hours behind UTC, and the
  local date is what \<open>datetime.now().date()\<close> returns. The tick is at 05:00 UTC of day 1,
  which is 22:00 of day 0 on the machine.
\<close>

definition greenwich_june_sun :: "int \<Rightarrow> sun_times" where
  "greenwich_june_sun d = \<lparr>sunrise = d * 86400 + 13380, sunset = d * 86400 + 73260\<rparr>"

definition pacific_date_of :: "int \<Rightarrow> int" where
  "pacific_date_of t = (t - 25200) div 86400"

definition night_tick :: tick_input where
  "night_tick = \<lparr>modbus = ModbusError, t_event = 104400, t_wait = 104400\<rparr>"

text \<open>A state file recording both devices as turned on by the script.\<close>

definition both_owned_state :: json where
  "both_owned_state =
     JObj [(''relay_turned_on_by_script'', JBool True), (''lamp_turned_on_by_script'', JBool True)]"

section \<open>Basic facts about the store and the gateway\<close>

lemmas model_defs = main_def startup_def main_tick_def policy_step_def turn_off_if_owned_def
  control_shelly_device_def save_state_def load_state_def default_state_def
  get_shelly_device_state_def status_body_def get_solar_output_def sleep_step_def
  has_passed_event_def wait_until_sunrise_def

lemmas example_defs = responsive_def example_world_def example_config_def no_ownership_def
  example_date_of_def example_sun_def noon_tick_def failed_read_tick_def evening_tick_def
  midnight_tick_def greenwich_june_sun_def pacific_date_of_def night_tick_def both_owned_state_def

lemma calls_save_state: "calls (save_state dev b w) = calls w"
  by (simp add: save_state_def split: sum.splits)

lemma writable_save_state: "writable (save_state dev b w) = writable w"
  by (simp add: save_state_def split: sum.splits)

lemma save_state_unwritable: "\<not> writable w \<Longrightarrow> save_state dev b w = w"
  by (simp add: save_state_def split: sum.splits)

lemma load_state_calls_update: "load_state (w\<lparr>calls := cs\<rparr>) = load_state w"
  by (simp add: load_state_def)

lemma load_state_switch: "load_state (switch dev b w) = load_state w"
  by (cases dev) (simp_all add: load_state_def)

lemma calls_switch: "calls (switch dev b w) = calls w"
  by (cases dev) simp_all

lemma writable_switch: "writable (switch dev b w) = writable w"
  by (cases dev) simp_all

lemma state_file_switch: "state_file (switch dev b w) = state_file w"
  by (cases dev) simp_all

lemma getitem_Inr_is_object: "getitem j k = Inr v \<Longrightarrow> is_object j"
  by (cases j) simp_all

text \<open>Reading back what \<open>save_state\<close> wrote: the named key holds the new value.\<close>

lemma load_save_same:
  "writable w \<Longrightarrow> is_object (load_state w) \<Longrightarrow>
     getitem (load_state (save_state dev b w)) (state_key dev) = Inr (JBool b)"
  by (cases "load_state w") (simp_all add: save_state_def load_state_def AList.update_conv')

text \<open>Every other key reads as before, whether or not the write happened.\<close>

lemma load_save_other:
  "k \<noteq> state_key dev \<Longrightarrow> getitem (load_state (save_state dev b w)) k = getitem (load_state w) k"
  by (cases "load_state w") (simp_all add: save_state_def load_state_def AList.update_conv')

lemma calls_control: "calls (control_shelly_device dev b t w) = calls w @ [(dev, b)]"
  by (simp add: control_shelly_device_def Let_def calls_save_state calls_switch
      split: http_result.splits)

lemma load_control_other:
  "k \<noteq> state_key dev \<Longrightarrow>
     getitem (load_state (control_shelly_device dev b t w)) k = getitem (load_state w) k"
  by (simp add: control_shelly_device_def Let_def load_save_other load_state_switch
      load_state_calls_update split: http_result.splits)

text \<open>Writing False over a flag that already reads false leaves it reading false.\<close>

lemma save_False_keeps_falsy:
  assumes "getitem (load_state w) (state_key dev) = Inr v" and "\<not> truthy v"
  shows "map_sum id truthy (getitem (load_state (save_state dev False w)) (state_key dev)) = Inr False
       \<and> (writable w \<longrightarrow>
            getitem (load_state (save_state dev False w)) (state_key dev) = Inr (JBool False))"
proof (cases "writable w")
  case True
  from assms(1) have "is_object (load_state w)" by (rule getitem_Inr_is_object)
  with True have "getitem (load_state (save_state dev False w)) (state_key dev) = Inr (JBool False)"
    by (rule load_save_same)
  then show ?thesis by simp
next
  case False
  with assms show ?thesis by (simp add: save_state_unwritable)
qed

text \<open>
  A reading above the high threshold, both devices answering 200: both switches end on.
  With a writable store holding an object, both flags are persisted as true.
\<close>

lemma high_reading_turns_on:
  assumes "high_threshold cfg < p"
    and "turn_result (relay_dev w) = Status 200" and "turn_result (lamp_dev w) = Status 200"
  shows "ison (relay_dev (policy_step cfg fl (Some p) w))"
    and "ison (lamp_dev (policy_step cfg fl (Some p) w))"
  using assms
  by (simp_all add: policy_step_def control_shelly_device_def save_state_def Let_def
      split: sum.splits)

section \<open>The scenario of one run\<close>

text \<open>
  C1. The run with high = 1000 and low = 200, both devices off, both flags false in the
  state file and the readings 1200, 500, 150. The claim expects the two turn-on requests
  after reading 1, nothing after reading 2 and a turn-off request for each device after
  reading 3. Evaluated on \<open>main\<close>: the request log after each of the three ticks is the
  same two turn-on requests, so reading 3 sends nothing, although at the end both switches
  are on and the state file holds true for both. The loop tests the two locals assigned
  at startup, which \<open>save_state\<close> never refreshes.
\<close>

theorem main_scenario_no_turn_off:
  "map_sum id (map calls)
     (main example_config example_sun example_date_of [noon_tick 1200, noon_tick 500, noon_tick 150]
        (example_world False False (Parsed default_state)))
     = Inr [[(Relay, True), (Lamp, True)], [(Relay, True), (Lamp, True)], [(Relay, True), (Lamp, True)]]
   \<and> map_sum id (map (\<lambda>w. (ison (relay_dev w), ison (lamp_dev w), load_state w)))
     (main example_config example_sun example_date_of [noon_tick 1200, noon_tick 500, noon_tick 150]
        (example_world False False (Parsed default_state)))
     = Inr (replicate 3 (True, True,
         JObj [(''relay_turned_on_by_script'', JBool True), (''lamp_turned_on_by_script'', JBool True)]))"
  by (simp add: model_defs example_defs numeral_3_eq_3)

section \<open>Readings above the high threshold\<close>

text \<open>
  C2. The claim expects a second tick with the same reading above the high threshold to
  send nothing, both devices being on already. Evaluated on \<open>main\<close> with the readings
  1200, 1200: after the first tick both switches are on and two requests are logged; the
  second tick sends both turn-on requests again. The branch calls
  \<open>control_shelly_device\<close> without querying the device first.
\<close>

theorem high_reading_repeats_commands:
  "map_sum id (map (\<lambda>w. (ison (relay_dev w), ison (lamp_dev w), calls w)))
     (main example_config example_sun example_date_of [noon_tick 1200, noon_tick 1200]
        (example_world False False (Parsed default_state)))
     = Inr [(True, True, [(Relay, True), (Lamp, True)]),
            (True, True, [(Relay, True), (Lamp, True), (Relay, True), (Lamp, True)])]"
  by (simp add: model_defs example_defs)

section \<open>Readings below the low threshold\<close>

text \<open>
  C3. The claim expects that a device which is on, with a false ownership flag, gets no
  control request at a reading below the low threshold. Evaluated on \<open>startup\<close> and two
  ticks with reading 150, the state file recording both devices as script-owned and both
  devices on: the first tick turns both off and the store then holds false for both; the
  user switches the relay on; at the second tick the relay is on and its stored flag is
  false, and the tick sends the relay another turn-off request, which switches it off.
  The loop still tests the local it assigned at startup, which is true.
\<close>

theorem stale_flag_overrides_user_device:
  "map_sum id
     (\<lambda>(fl, w1).
        let w2 = fst (main_tick example_config example_sun example_date_of fl (noon_tick 150) w1);
            w3 = switch Relay True w2;
            w4 = fst (main_tick example_config example_sun example_date_of fl (noon_tick 150) w3)
        in (calls w2, getitem (load_state w3) (state_key Relay), ison (relay_dev w3),
            calls w4, ison (relay_dev w4)))
     (startup (example_world True True (Parsed both_owned_state)))
   = Inr ([(Relay, False), (Lamp, False)], Inr (JBool False), True,
          [(Relay, False), (Lamp, False), (Relay, False)], False)"
  by (simp add: model_defs example_defs)

section \<open>The sleep decision\<close>




section \<open>Startup reconciliation\<close>

text \<open>
  C5. Startup succeeds, a device is observed on and its loaded flag is false. Then
  reconciliation has sent no control request, the device's flag in the store reads false
  afterwards, and where the store can be written it holds the explicit value \<open>false\<close>.
\<close>

theorem reconciliation_records_user_owned:
  assumes start: "startup w = Inr (fl, w')"
    and seen: "get_shelly_device_state dev w"
    and user: "\<not> truthy (flag_of dev fl)"
  shows "calls w' = calls w
       \<and> map_sum id truthy (getitem (load_state w') (state_key dev)) = Inr False
       \<and> (writable w \<longrightarrow> getitem (load_state w') (state_key dev) = Inr (JBool False))"
proof -
  from start obtain rv lv where
    rv: "getitem (load_state w) (state_key Relay) = Inr rv" and
    lv: "getitem (load_state w) (state_key Lamp) = Inr lv" and
    fl: "fl = \<lparr>relay_turned_on_by_script = rv, lamp_turned_on_by_script = lv\<rparr>"
    by (auto simp: startup_def Let_def split: sum.splits)
  define w1 where
    "w1 = (if get_shelly_device_state Relay w \<and> \<not> truthy rv then save_state Relay False w else w)"
  have w': "w' = (if get_shelly_device_state Lamp w \<and> \<not> truthy lv then save_state Lamp False w1 else w1)"
    using start rv lv by (auto simp: startup_def Let_def w1_def)
  have no_calls: "calls w' = calls w"
    by (simp add: w' w1_def calls_save_state)
  have wr1: "writable w1 = writable w"
    by (simp add: w1_def writable_save_state)
  have flag: "map_sum id truthy (getitem (load_state w') (state_key dev)) = Inr False
       \<and> (writable w \<longrightarrow> getitem (load_state w') (state_key dev) = Inr (JBool False))"
  proof (cases dev)
    case Relay
    with seen user fl have w1: "w1 = save_state Relay False w" and falsy: "\<not> truthy rv"
      by (simp_all add: w1_def)
    have same: "getitem (load_state w') (state_key Relay) = getitem (load_state w1) (state_key Relay)"
      using load_save_other [of "state_key Relay" Lamp False w1] by (simp add: w')
    from save_False_keeps_falsy [OF rv falsy] same w1 Relay show ?thesis by simp
  next
    case Lamp
    with seen user fl have w'2: "w' = save_state Lamp False w1" and falsy: "\<not> truthy lv"
      by (simp_all add: w')
    have "getitem (load_state w1) (state_key Lamp) = getitem (load_state w) (state_key Lamp)"
      using load_save_other [of "state_key Lamp" Relay False w] by (simp add: w1_def)
    with lv have lv1: "getitem (load_state w1) (state_key Lamp) = Inr lv" by simp
    from save_False_keeps_falsy [OF lv1 falsy] w'2 wr1 Lamp show ?thesis by simp
  qed
  from no_calls flag show ?thesis by simp
qed

theorem reconciliation_records_user_owned_witness:
  "startup (example_world True False Missing)
     = Inr (no_ownership, example_world True False (Parsed default_state))
   \<and> get_shelly_device_state Relay (example_world True False Missing)
   \<and> calls (example_world True False (Parsed default_state)) = []
   \<and> getitem (load_state (example_world True False (Parsed default_state))) (state_key Relay)
       = Inr (JBool False)"
proof -
  have start: "startup (example_world True False Missing)
      = Inr (no_ownership, example_world True False (Parsed default_state))"
    by (simp add: model_defs example_defs)
  have seen: "get_shelly_device_state Relay (example_world True False Missing)"
    by (simp add: model_defs example_defs)
  have user: "\<not> truthy (flag_of Relay no_ownership)"
    by (simp add: no_ownership_def)
  from reconciliation_records_user_owned [OF start seen user] start seen
  show ?thesis by (simp add: example_world_def)
qed

section \<open>Persisting after a control call\<close>

text \<open>
  C6, as amended. A control call answered with 200 and made with \<open>track_state\<close> true
  persists the device's flag as the commanded value when the store can be written and the
  loaded state is an object; made with \<open>track_state\<close> false it leaves the state file as it
  was. A call that raises or is answered with another status leaves the state file as it
  was. The function returns a world on every path: it raises nothing.
\<close>

theorem control_persists_when_tracking:
  "(turn_result (shelly_of dev w) = Status 200 \<and> writable w \<and> is_object (load_state w) \<longrightarrow>
      getitem (load_state (control_shelly_device dev turn_on True w)) (state_key dev)
        = Inr (JBool turn_on))
   \<and> state_file (control_shelly_device dev turn_on False w) = state_file w
   \<and> (turn_result (shelly_of dev w) \<noteq> Status 200 \<longrightarrow>
      state_file (control_shelly_device dev turn_on track_state w) = state_file w)"
  by (auto simp: control_shelly_device_def Let_def load_save_same load_state_switch
      load_state_calls_update writable_switch state_file_switch split: http_result.splits)

theorem control_persists_when_tracking_witness:
  "getitem (load_state (control_shelly_device Relay True True (example_world False False Missing)))
      (state_key Relay) = Inr (JBool True)
   \<and> state_file (control_shelly_device Lamp True True
        ((example_world False False Missing)\<lparr>lamp_dev := (responsive False)\<lparr>turn_result := Status 500\<rparr>\<rparr>))
      = Missing"
  using control_persists_when_tracking [of Relay "example_world False False Missing" True True]
    control_persists_when_tracking [of Lamp
      "(example_world False False Missing)\<lparr>lamp_dev := (responsive False)\<lparr>turn_result := Status 500\<rparr>\<rparr>"
      True True]
  by (simp add: example_defs load_state_def default_state_def)

text \<open>
  The claim as stated fails for a call with \<open>track_state\<close> false: the relay answers 200 and
  is switched on, and the stored flag still reads false.
\<close>

theorem control_untracked_counterexample:
  "turn_result (shelly_of Relay (example_world False False (Parsed default_state))) = Status 200
   \<and> ison (relay_dev (control_shelly_device Relay True False
         (example_world False False (Parsed default_state))))
   \<and> getitem (load_state (control_shelly_device Relay True False
         (example_world False False (Parsed default_state)))) (state_key Relay) = Inr (JBool False)"
  by (simp add: model_defs example_defs)

section \<open>Loading the state\<close>

text \<open>
  C7, as amended. \<open>load_state\<close> returns a value on every path. For a missing file and for
  a file that cannot be read or parsed it returns the all-false default, and startup goes
  on with both flags false. A file that parses is returned as parsed, whatever its shape.
\<close>

theorem load_state_fallback:
  "(state_file w = Missing \<or> state_file w = Unparsable \<longrightarrow>
      load_state w = default_state \<and> map_sum id fst (startup w) = Inr no_ownership)
   \<and> (state_file w = Parsed j \<longrightarrow> load_state w = j)"
  by (auto simp: load_state_def startup_def default_state_def no_ownership_def Let_def)

theorem load_state_fallback_witness:
  "load_state (example_world False False Unparsable) = default_state
   \<and> map_sum id fst (startup (example_world False False Unparsable)) = Inr no_ownership
   \<and> load_state (example_world False False (Parsed (JArr []))) = JArr []"
  using load_state_fallback [of "example_world False False Unparsable" JNull]
    load_state_fallback [of "example_world False False (Parsed (JArr []))" "JArr []"]
  by (simp add: example_world_def)

text \<open>
  The claim as stated fails for a file that parses to an object without the two keys:
  \<open>load_state\<close> returns that object, not the default, and startup stops with KeyError.
\<close>

theorem load_state_wrong_shape_counterexample:
  "load_state (example_world False False (Parsed (JObj []))) = JObj []
   \<and> JObj [] \<noteq> default_state
   \<and> startup (example_world False False (Parsed (JObj []))) = Inl KeyError"
  by (simp add: load_state_def startup_def default_state_def example_world_def)

section \<open>Round trip through the store\<close>

text \<open>
  C8. The store can be written and the loaded state is an object (the default of a
  missing or unreadable file included). Then \<open>save_state\<close> for a device followed by
  \<open>load_state\<close> reads the commanded value under that device's key, and every other key,
  the other device's among them, reads as before.
\<close>

theorem save_state_roundtrip:
  assumes "writable w" and "is_object (load_state w)"
  shows "getitem (load_state (save_state dev turn_on w)) (state_key dev) = Inr (JBool turn_on)
       \<and> (\<forall>k. k \<noteq> state_key dev \<longrightarrow>
             getitem (load_state (save_state dev turn_on w)) k = getitem (load_state w) k)"
  using assms by (simp add: load_save_same load_save_other)

theorem save_state_roundtrip_witness:
  "getitem (load_state (save_state Relay True (example_world False True
       (Parsed (JObj [(''relay_turned_on_by_script'', JBool False), (''lamp_turned_on_by_script'', JBool True)])))))
     (state_key Relay) = Inr (JBool True)
   \<and> getitem (load_state (save_state Relay True (example_world False True
       (Parsed (JObj [(''relay_turned_on_by_script'', JBool False), (''lamp_turned_on_by_script'', JBool True)])))))
     (state_key Lamp) = Inr (JBool True)"
  using save_state_roundtrip [of "example_world False True
       (Parsed (JObj [(''relay_turned_on_by_script'', JBool False), (''lamp_turned_on_by_script'', JBool True)]))"
      Relay True]
  by (simp add: example_world_def load_state_def)

section \<open>Readings that ask for nothing\<close>

text \<open>
  C9. When the reading is absent, or present and between the low and the high threshold
  (both included), the tick leaves the world as it was: no control request is sent, the
  state file is unchanged, and the tick's result is the sleep decision.
\<close>

theorem in_band_tick_no_action:
  assumes "get_solar_output (modbus inp) = None
           \<or> (\<exists>p. get_solar_output (modbus inp) = Some p
                  \<and> low_threshold cfg \<le> p \<and> p \<le> high_threshold cfg)"
  shows "main_tick cfg sun date_of fl inp w = (w, sleep_step sun date_of (t_event inp) (t_wait inp))"
  using assms by (auto simp: main_tick_def policy_step_def)

theorem in_band_tick_no_action_witness:
  "main_tick example_config example_sun example_date_of no_ownership failed_read_tick
      (example_world True True Missing) = (example_world True True Missing, Inr PollSleep)
   \<and> main_tick example_config example_sun example_date_of no_ownership (noon_tick 500)
      (example_world True True Missing) = (example_world True True Missing, Inr PollSleep)"
  using in_band_tick_no_action [of failed_read_tick example_config example_sun example_date_of
      no_ownership "example_world True True Missing"]
    in_band_tick_no_action [of "noon_tick 500" example_config example_sun example_date_of
      no_ownership "example_world True True Missing"]
  by (simp add: example_defs get_solar_output_def sleep_step_def has_passed_event_def)

section \<open>Power reader: range of a present reading\<close>

text \<open>
  C10. A present power reading is the second register of the Modbus answer, read as an
  unsigned 16-bit value: it lies between 0 and 65535 and is never negative.
\<close>

theorem get_solar_output_range:
  "get_solar_output result = Some p \<Longrightarrow>
     (\<exists>registers. result = Registers registers \<and> 1 < length registers \<and> p = uint (registers ! 1))
     \<and> 0 \<le> p \<and> p \<le> 65535"
proof -
  assume a: "get_solar_output result = Some p"
  then obtain registers where r: "result = Registers registers" "1 < length registers"
      "p = uint (registers ! 1)"
    by (auto simp: get_solar_output_def split: modbus_result.splits if_splits)
  have "uint (registers ! 1) < 2 ^ 16"
    using uint_bounded [of "registers ! 1"] by simp
  with r show ?thesis by simp
qed

theorem get_solar_output_range_witness:
  "get_solar_output (Registers [0, 1200]) = Some 1200 \<and> (0::int) \<le> 1200 \<and> (1200::int) \<le> 65535"
  using get_solar_output_range [of "Registers [0, 1200]" 1200]
  by (simp add: get_solar_output_def)

end
